theory Spec2Isabelle
  imports Main "HOL-Library.Char_ord" "HOL-Library.List_Lexorder" "HOL-Library.Product_Lexorder"
    "HOL-Library.Multiset"
begin

section \<open>Strings and paths\<close>

text \<open>
  The generator formats the sibling index of a module with an f-string, \<^verbatim>\<open>f"{symbol}{index}"\<close>:
  the decimal numeral of a non-negative integer.
\<close>

definition digit_char :: "nat \<Rightarrow> char" where
  "digit_char d = ''0123456789'' ! d"

fun str_nat :: "nat \<Rightarrow> string" where
  "str_nat n = (if n < 10 then [digit_char n] else str_nat (n div 10) @ [digit_char (n mod 10)])"

declare str_nat.simps [simp del]

text \<open>\<^verbatim>\<open>sep.join(xs)\<close> and \<^verbatim>\<open>s.replace("/", "_")\<close> of Python's strings.\<close>

fun join_str :: "string \<Rightarrow> string list \<Rightarrow> string" where
  "join_str sep [] = []"
| "join_str sep [x] = x"
| "join_str sep (x # y # ys) = x @ sep @ join_str sep (y # ys)"

definition replace_slash :: "string \<Rightarrow> string" where
  "replace_slash s = map (\<lambda>c. if c = CHR ''/'' then CHR ''_'' else c) s"

text \<open>
  A \<^verbatim>\<open>pathlib.Path\<close> (POSIX flavour) is modelled by its \<^verbatim>\<open>parts\<close>: the list of its
  components, with the anchor \<^verbatim>\<open>/\<close> (or \<^verbatim>\<open>//\<close>) as first part of an absolute path. Parsing a
  string splits it at the separator and drops empty and \<^verbatim>\<open>.\<close> components; joining a path
  with an absolute segment gives the segment alone, as \<^verbatim>\<open>Path("A") / "/0" == Path("/0")\<close>.
\<close>

type_synonym path = "string list"

fun split_sep :: "char \<Rightarrow> string \<Rightarrow> string list" where
  "split_sep sep [] = [[]]"
| "split_sep sep (c # cs) =
     (if c = sep then [] # split_sep sep cs
      else (case split_sep sep cs of [] \<Rightarrow> [[c]] | w # ws \<Rightarrow> (c # w) # ws))"

definition path_of_str :: "string \<Rightarrow> path" where
  "path_of_str s =
     (let comps = filter (\<lambda>w. w \<noteq> [] \<and> w \<noteq> ''.'') (split_sep CHR ''/'' s)
      in if take 2 s = ''//'' \<and> take 3 s \<noteq> ''///'' then ''//'' # comps
         else if take 1 s = ''/'' then ''/'' # comps
         else comps)"

definition is_absolute :: "path \<Rightarrow> bool" where
  "is_absolute p = (case p of [] \<Rightarrow> False | a # _ \<Rightarrow> a = ''/'' \<or> a = ''//'')"

text \<open>\<^verbatim>\<open>p / q\<close> for two paths, and \<^verbatim>\<open>p / s\<close> for a path and a string.\<close>

definition join_paths :: "path \<Rightarrow> path \<Rightarrow> path" where
  "join_paths p q = (if is_absolute q then q else p @ q)"

definition joinpath :: "path \<Rightarrow> string \<Rightarrow> path" where
  "joinpath p s = join_paths p (path_of_str s)"

text \<open>\<^verbatim>\<open>p.parent\<close>: the path without its last component; the anchor and the empty path are their own parents.\<close>

definition parent_path :: "path \<Rightarrow> path" where
  "parent_path p = (if p = [] \<or> (is_absolute p \<and> length p = 1) then p else butlast p)"

text \<open>\<^verbatim>\<open>str(p)\<close>.\<close>

definition str_path :: "path \<Rightarrow> string" where
  "str_path p =
     (case p of [] \<Rightarrow> ''.''
      | a # rest \<Rightarrow> if is_absolute p then a @ join_str ''/'' rest else join_str ''/'' p)"

section \<open>Configuration\<close>

text \<open>
  The validated option object: the expansion depth (\<^verbatim>\<open>--depth\<close>, checked to be
  non-negative), the rules (a dictionary from one-character predecessors to successor
  strings), the size table and the loading mode.
\<close>

record options =
  depth_opt :: nat
  rules :: "char \<rightharpoonup> string"
  sizes :: "char \<rightharpoonup> int"
  dynamic_imports :: bool

definition ROOT_AXIOM :: char where
  "ROOT_AXIOM = CHR ''A''"

section \<open>Modules\<close>

text \<open>
  The class \<^verbatim>\<open>Module\<close>. The tree owns its children; the \<^verbatim>\<open>parent\<close> attribute is read by the
  constructor only (for \<^verbatim>\<open>parent.submodule_path\<close>), so the constructor takes the parent and
  the object does not store it.
\<close>

datatype module = Module
  (children: "module list")
  (simple_name: string)
  (depth: nat)
  (index: nat)
  (size_m: int)
  (dynamic_import: bool)
  (name: string)
  (path: path)
  (submodule_path: path)

definition Module_init :: "string \<Rightarrow> module option \<Rightarrow> nat \<Rightarrow> nat \<Rightarrow> int \<Rightarrow> bool \<Rightarrow> module" where
  "Module_init nm parent d i sz dyn =
     (case parent of
        Some par \<Rightarrow>
          (let pth = joinpath (submodule_path par) nm;
               qname = replace_slash (str_path pth);
               fpath = joinpath (submodule_path par) (qname @ ''.mjs'')
           in Module [] nm d i sz dyn qname fpath (joinpath (parent_path fpath) nm))
      | None \<Rightarrow>
          (let fpath = path_of_str (nm @ ''.mjs'')
           in Module [] nm d i sz dyn nm fpath (joinpath (parent_path fpath) nm)))"

definition append_child :: "module \<Rightarrow> module \<Rightarrow> module" where
  "append_child self m =
     Module (children self @ [m]) (simple_name self) (depth self) (index self) (size_m self)
       (dynamic_import self) (name self) (path self) (submodule_path self)"

definition has_children :: "module \<Rightarrow> bool" where
  "has_children self = (length (children self) > 0)"

section \<open>Grammar expansion\<close>

text \<open>
  \<^verbatim>\<open>Module.expand_recurse\<close>. The recursion stops when the depth of a node equals the
  configured depth, a test for equality: the first argument is the number of nested calls
  the interpreter still allows, and \<open>None\<close> is its \<^verbatim>\<open>RecursionError\<close>. A result
  \<open>Some (self', acc', ret)\<close> holds the node after the call, the accumulator after the
  call and the value the call returns: Python's \<^verbatim>\<open>None\<close> for the two early returns,
  the accumulator otherwise.

  The accumulator holds references: a module appended to it is expanded afterwards, and the
  list sees the expanded object. The model writes the expanded module back into the slot
  where it was appended.
\<close>

fun expand_recurse ::
    "nat \<Rightarrow> module \<Rightarrow> char \<Rightarrow> options \<Rightarrow> module list
      \<Rightarrow> (module \<times> module list \<times> module list option) option"
  and expand_loop ::
    "nat \<Rightarrow> module \<Rightarrow> string \<Rightarrow> nat \<Rightarrow> options \<Rightarrow> module list
      \<Rightarrow> (module \<times> module list) option"
where
  "expand_recurse 0 self symbol opts accumulator = None"
| "expand_recurse (Suc fuel) self symbol opts accumulator =
     (if depth self = depth_opt opts then Some (self, accumulator, None)
      else (case rules opts symbol of
              None \<Rightarrow> Some (self, accumulator, None)
            | Some expansion \<Rightarrow>
                (case expand_loop fuel self expansion 0 opts accumulator of
                   None \<Rightarrow> None
                 | Some (self', acc') \<Rightarrow> Some (self', acc', Some acc'))))"
| "expand_loop fuel self [] i opts accumulator = Some (self, accumulator)"
| "expand_loop fuel self (symbol # rest) i opts accumulator =
     (let m = Module_init (symbol # str_nat i) (Some self) (depth self + 1) i
                (case sizes opts symbol of None \<Rightarrow> 0 | Some sz \<Rightarrow> sz) (dynamic_imports opts)
      in (case expand_recurse fuel m symbol opts (accumulator @ [m]) of
            None \<Rightarrow> None
          | Some (m', acc', _) \<Rightarrow>
              expand_loop fuel (append_child self m') rest (i + 1) opts
                (acc'[length accumulator := m'])))"

section \<open>The benchmark\<close>

text \<open>
  The class \<^verbatim>\<open>Benchmark\<close>: its options, the root module and \<^verbatim>\<open>self.modules\<close>, which is
  whatever the root call of \<^verbatim>\<open>expand_recurse\<close> returned (\<open>None\<close> for Python's \<^verbatim>\<open>None\<close>).
\<close>

record benchmark =
  options :: options
  start_module :: module
  modules :: "module list option"

definition create_module_tree :: "nat \<Rightarrow> options \<Rightarrow> benchmark option" where
  "create_module_tree fuel opts =
     (let start = Module_init [ROOT_AXIOM] None 0 0 0 (dynamic_imports opts)
      in (case expand_recurse fuel start ROOT_AXIOM opts [] of
            None \<Rightarrow> None
          | Some (start', acc, ret) \<Rightarrow>
              Some \<lparr>options = opts, start_module = start', modules = ret\<rparr>))"

section \<open>Module artifacts\<close>

text \<open>
  The filler literals come from \<^verbatim>\<open>random.randint(min_range, max_range)\<close>, which draws from
  the process-wide generator. The generator is modelled as a stream of raw draws, passed
  along and consumed one draw per literal; \<^verbatim>\<open>randint\<close> maps a draw into the closed range.
\<close>

type_synonym rng = "nat \<Rightarrow> nat"

definition randint :: "nat \<Rightarrow> nat \<Rightarrow> rng \<Rightarrow> nat \<times> rng" where
  "randint lo hi g = (lo + g 0 mod (hi - lo + 1), \<lambda>k. g (Suc k))"

definition random_digits :: nat where
  "random_digits = 10"

definition instruction_length :: nat where
  "instruction_length = (3 + random_digits + 1) + (3 + random_digits + 2)"

definition min_range :: nat where
  "min_range = 10 ^ (random_digits - 1)"

definition max_range :: nat where
  "max_range = 10 ^ random_digits - 1"

text \<open>\<^verbatim>\<open>Module.write_static_imports\<close>: the import lines written and the operations returned.\<close>

definition write_static_imports :: "module \<Rightarrow> string \<times> string list" where
  "write_static_imports self =
     (concat (map (\<lambda>m. ''import {f_'' @ name m @ ''} from './'' @ simple_name self @ ''/''
                          @ name m @ ''.mjs'' @ [CHR 0x27] @ ''\<newline>'') (children self)),
      map (\<lambda>m. ''f_'' @ name m @ ''()'') (children self))"

text \<open>\<^verbatim>\<open>Module.create_dynamic_imports\<close>.\<close>

definition create_dynamic_imports :: "module \<Rightarrow> string list" where
  "create_dynamic_imports self =
     map (\<lambda>m. ''import('./'' @ simple_name self @ ''/'' @ name m @ ''.mjs').then(m => m.f_''
                 @ name m @ ''())'') (children self)"

text \<open>
  The string that \<^verbatim>\<open>operations\<close> holds when the helper is written: the operations joined
  with \<^verbatim>\<open>+\<close> after \<^verbatim>\<open>a\<close> was appended (static imports), or joined with a comma, a
  newline and four blanks (dynamic imports).
\<close>

definition operations_joined :: "module \<Rightarrow> string" where
  "operations_joined self =
     (if dynamic_import self then join_str '',\<newline>    '' (create_dynamic_imports self)
      else join_str ''+'' (snd (write_static_imports self) @ [''a'']))"

text \<open>
  The bound of the filler loop,
  \<^verbatim>\<open>math.floor((self.size - len(operations) * 2) / instruction_length)\<close>. The quotient is a
  float; for sizes below \<open>2\<^sup>5\<^sup>3\<close> its floor is the floor of the exact quotient, which is what
  the model computes. \<^verbatim>\<open>range\<close> of a negative bound is empty.
\<close>

definition filler_bound :: "module \<Rightarrow> int" where
  "filler_bound self =
     (size_m self - int (length (operations_joined self)) * 2) div int instruction_length"

fun filler :: "nat \<Rightarrow> rng \<Rightarrow> string list \<times> rng" where
  "filler 0 g = ([], g)"
| "filler (Suc n) g =
     (let (number, g1) = randint min_range max_range g;
          (rest, g2) = filler n g1
      in ((''a+='' @ str_nat number @ '';a-='' @ str_nat number @ '';\<newline>'') # rest, g2))"

definition helper_text :: "module \<Rightarrow> rng \<Rightarrow> string \<times> rng" where
  "helper_text self g =
     (let (fill, g1) = filler (nat (filler_bound self)) g
      in (''function helper() {\<newline>'' @ ''  let a=1;'' @ concat fill @ '';\<newline>''
            @ ''  return a+100;\<newline>'' @ ''}\<newline>'', g1))"

text \<open>The text that \<^verbatim>\<open>Module.export\<close> writes into the file of one module.\<close>

definition file_text :: "module \<Rightarrow> rng \<Rightarrow> string \<times> rng" where
  "file_text self g =
     (let imports = (if dynamic_import self then [] else fst (write_static_imports self));
          header = (if dynamic_import self then ''export async function f_'' @ name self @ ''() {\<newline>''
                    else ''export function f_'' @ name self @ ''() {\<newline>'');
          guard = (if size_m self \<noteq> 0
                   then ''  if (document.evaluate_all) {\<newline>'' @ ''    a=helper()\<newline>'' @ ''  }\<newline>''
                   else []);
          body = (if dynamic_import self
                  then ''  const results = await Promise.all([\<newline>''
                       @ ''    '' @ operations_joined self @ ''\<newline>''
                       @ ''  ]);\<newline>''
                       @ ''  for (let result of results) a += result;\<newline>''
                       @ ''  return a;\<newline>''
                  else ''  return '' @ operations_joined self @ '';\<newline>'');
          (helper, g1) = (if size_m self \<noteq> 0 then helper_text self g else ([], g))
      in (imports @ header @ ''  let a=1;\<newline>'' @ guard @ body @ ''}\<newline>'' @ helper, g1))"

text \<open>
  What the program asks of the file system, in order. Every request is taken to succeed:
  an existing directory or an unwritable place ends the real run with an exception.
\<close>

datatype fs_op =
    Mkdir path
  | Mkdir_parents path
  | Write_file path string
  | Check_call string

text \<open>\<^verbatim>\<open>Module.export\<close>: the file of the module, then a directory and the files of its children.\<close>

fun Module_export :: "path \<Rightarrow> module \<Rightarrow> rng \<Rightarrow> fs_op list \<times> rng"
  and export_children :: "path \<Rightarrow> module list \<Rightarrow> rng \<Rightarrow> fs_op list \<times> rng"
where
  "Module_export out_dir (Module ch sn d i sz dyn nm p sp) g =
     (let self = Module ch sn d i sz dyn nm p sp;
          (text, g1) = file_text self g;
          w = Write_file (join_paths out_dir p) text
      in if has_children self
         then (let (ops, g2) = export_children out_dir ch g1
               in (w # Mkdir (join_paths out_dir sp) # ops, g2))
         else ([w], g1))"
| "export_children out_dir [] g = ([], g)"
| "export_children out_dir (m # ms) g =
     (let (ops1, g1) = Module_export out_dir m g;
          (ops2, g2) = export_children out_dir ms g1
      in (ops1 @ ops2, g2))"

section \<open>Trees and scenarios\<close>

text \<open>The nodes below a module in the order of their creation: each child, followed by its own descendants.\<close>

fun descendants :: "module \<Rightarrow> module list"
  and descendants_list :: "module list \<Rightarrow> module list"
where
  "descendants (Module ch sn d i sz dyn nm p sp) = descendants_list ch"
| "descendants_list [] = []"
| "descendants_list (m # ms) = m # descendants m @ descendants_list ms"

text \<open>The configuration \<^verbatim>\<open>--rules A:AB,B:BBB --depth 2\<close> with no sizes, and the tree it describes.\<close>

definition scenario_options :: options where
  "scenario_options = \<lparr>depth_opt = 2, rules = [CHR ''A'' \<mapsto> ''AB'', CHR ''B'' \<mapsto> ''BBB''],
     sizes = Map.empty, dynamic_imports = False\<rparr>"

definition scenario_tree :: module where
  "scenario_tree =
     Module
       [Module
          [Module [] ''A0'' 2 0 0 False ''A_A0_A0'' [''A'', ''A0'', ''A_A0_A0.mjs''] [''A'', ''A0'', ''A0''],
           Module [] ''B1'' 2 1 0 False ''A_A0_B1'' [''A'', ''A0'', ''A_A0_B1.mjs''] [''A'', ''A0'', ''B1'']]
          ''A0'' 1 0 0 False ''A_A0'' [''A'', ''A_A0.mjs''] [''A'', ''A0''],
        Module
          [Module [] ''B0'' 2 0 0 False ''A_B1_B0'' [''A'', ''B1'', ''A_B1_B0.mjs''] [''A'', ''B1'', ''B0''],
           Module [] ''B1'' 2 1 0 False ''A_B1_B1'' [''A'', ''B1'', ''A_B1_B1.mjs''] [''A'', ''B1'', ''B1''],
           Module [] ''B2'' 2 2 0 False ''A_B1_B2'' [''A'', ''B1'', ''A_B1_B2.mjs''] [''A'', ''B1'', ''B2'']]
          ''B1'' 1 1 0 False ''A_B1'' [''A'', ''A_B1.mjs''] [''A'', ''B1'']]
       ''A'' 0 0 0 False ''A'' [''A.mjs''] [''A'']"

section \<open>Export of the benchmark\<close>

datatype error = TypeError | ValueError

text \<open>
  \<^verbatim>\<open>Benchmark.export_modules\<close>: the files of the tree are written, the number of modules is
  printed (\<^verbatim>\<open>len(self.modules)\<close>, a \<^verbatim>\<open>TypeError\<close> when the root call of
  \<^verbatim>\<open>expand_recurse\<close> returned \<^verbatim>\<open>None\<close>), and the list is sorted in place by the key
  \<^verbatim>\<open>(len(m.path.parts), m.path.parts)\<close>. Tuples and strings compare lexicographically.
\<close>

definition sort_modules :: "module list \<Rightarrow> module list" where
  "sort_modules ms = sort_key (\<lambda>m. (length (path m), path m)) ms"

definition export_modules :: "path \<Rightarrow> benchmark \<Rightarrow> rng \<Rightarrow> fs_op list \<times> (error + benchmark)" where
  "export_modules out_path b g =
     (let (ops, g1) = Module_export out_path (start_module b) g
      in (case modules b of
            None \<Rightarrow> (ops, Inl TypeError)
          | Some ms \<Rightarrow> (ops, Inr (b\<lparr>modules := Some (sort_modules ms)\<rparr>))))"

text \<open>\<^verbatim>\<open>Benchmark.build_bundles\<close>: the two commands handed to the shell.\<close>

definition build_bundles :: "path \<Rightarrow> fs_op list" where
  "build_bundles out_path =
     [Check_call (''gen-bundle --dir='' @ [CHR 0x27] @ str_path out_path @ [CHR 0x27]
        @ '' --o='' @ [CHR 0x27] @ str_path (joinpath out_path ''bundled.wbn'') @ [CHR 0x27]),
      Check_call (''npx rollup '' @ [CHR 0x27] @ str_path (joinpath out_path ''A.mjs'') @ [CHR 0x27]
        @ '' --format=esm --file='' @ [CHR 0x27] @ str_path (joinpath out_path ''bundled.mjs'')
        @ [CHR 0x27] @ '' --name=A'')]"

text \<open>The slice \<^verbatim>\<open>xs[:n]\<close>: a negative bound counts from the end.\<close>

definition slice_to :: "int \<Rightarrow> 'a list \<Rightarrow> 'a list" where
  "slice_to n xs = (if 0 \<le> n then take (nat n) xs else take (length xs - nat (- n)) xs)"

definition output_headers :: "module list \<Rightarrow> int \<Rightarrow> string" where
  \<open>output_headers ms prefetch_count =
     join_str ''\<newline>''
       (map (\<lambda>m. ''  <link rel="modulepreload" href="'' @ str_path (path m) @ ''">'')
          (slice_to prefetch_count ms))\<close>

definition output_scripts :: "module list \<Rightarrow> int \<Rightarrow> string" where
  \<open>output_scripts ms preload_count =
     join_str ''\<newline>''
       (map (\<lambda>m. ''  <script type="module" src="'' @ str_path (path m) @ ''"></script>'')
          (slice_to preload_count ms))\<close>

text \<open>
  The templates under \<^verbatim>\<open>html/\<close> and the statistics block of \<^verbatim>\<open>output_info\<close> (which prints
  dictionaries and a rounded float) are parameters: \<open>render\<close> takes the name of a template
  and the substitutions, \<open>info\<close> is the text of the block. A page is the request to write
  the rendered text; each export returns the path of its page.
\<close>

type_synonym renderer = "string \<Rightarrow> (string \<times> string) list \<Rightarrow> string"

definition export_benchmark ::
    "renderer \<Rightarrow> string \<Rightarrow> path \<Rightarrow> module list \<Rightarrow> string \<Rightarrow> int \<Rightarrow> int \<Rightarrow> fs_op \<times> path" where
  "export_benchmark render info out_path ms file_name prefetch_count preload_count =
     (let pth = joinpath out_path file_name
      in (Write_file pth
            (render ''benchmark''
               [(''headers'', output_headers ms prefetch_count),
                (''info'', info),
                (''scripts'', output_scripts ms preload_count),
                (''module'', ''./A.mjs'')]),
          pth))"

definition export_bundled :: "renderer \<Rightarrow> string \<Rightarrow> path \<Rightarrow> fs_op \<times> path" where
  "export_bundled render info out_path =
     (let pth = joinpath out_path ''rollup.html''
      in (Write_file pth
            (render ''benchmark''
               [(''headers'', ''''), (''info'', info), (''scripts'', ''''),
                (''module'', ''./bundled.mjs'')]),
          pth))"

definition export_bundled_wbn :: "renderer \<Rightarrow> string \<Rightarrow> path \<Rightarrow> fs_op \<times> path" where
  \<open>export_bundled_wbn render info out_path =
     (let pth = joinpath out_path ''webbundle.html''
      in (Write_file pth
            (render ''benchmark''
               [(''headers'', ''  <script type="webbundle"> { "source": "bundled.wbn", "scopes": ["./"] } </script>''),
                (''info'', info), (''scripts'', ''''),
                (''module'', ''./A.mjs'')]),
          pth))\<close>

text \<open>\<^verbatim>\<open>p.relative_to(base)\<close> raises \<^verbatim>\<open>ValueError\<close> unless \<^verbatim>\<open>base\<close> is a prefix of \<^verbatim>\<open>p\<close>.\<close>

definition relative_to :: "path \<Rightarrow> path \<Rightarrow> error + path" where
  "relative_to p base =
     (if take (length base) p = base then Inr (drop (length base) p) else Inl ValueError)"

text \<open>\<^verbatim>\<open>p.name\<close>: the last component, empty for the empty path and for an anchor.\<close>

definition path_name :: "path \<Rightarrow> string" where
  "path_name p = (if p = [] \<or> (is_absolute p \<and> length p = 1) then [] else last p)"

fun benchmark_list_lines :: "path \<Rightarrow> path list \<Rightarrow> error + string list" where
  "benchmark_list_lines out_path [] = Inr []"
| \<open>benchmark_list_lines out_path (p # ps) =
     (case relative_to p out_path of
        Inl e \<Rightarrow> Inl e
      | Inr rel \<Rightarrow>
          (case benchmark_list_lines out_path ps of
             Inl e \<Rightarrow> Inl e
           | Inr ls \<Rightarrow>
               Inr ((''  <li><a href="'' @ str_path rel @ ''">'' @ path_name p @ ''</a></li>'') # ls)))\<close>

definition output_benchmark_list :: "path \<Rightarrow> path list \<Rightarrow> error + string" where
  "output_benchmark_list out_path benchmarks =
     (case benchmark_list_lines out_path benchmarks of
        Inl e \<Rightarrow> Inl e
      | Inr ls \<Rightarrow> Inr (join_str ''\<newline>'' ls))"

definition export_index :: "renderer \<Rightarrow> string \<Rightarrow> path \<Rightarrow> path list \<Rightarrow> error + fs_op" where
  "export_index render info out_path benchmarks =
     (case output_benchmark_list out_path benchmarks of
        Inl e \<Rightarrow> Inl e
      | Inr l \<Rightarrow>
          Inr (Write_file (joinpath out_path ''index.html'')
                 (render ''index'' [(''info'', info), (''benchmarks'', l)])))"

text \<open>
  \<^verbatim>\<open>Benchmark.export_html\<close>. The first page opens its file and then slices
  \<^verbatim>\<open>self.modules\<close>: were that \<^verbatim>\<open>None\<close>, the file would be left empty by a \<^verbatim>\<open>TypeError\<close>.
\<close>

definition export_html ::
    "renderer \<Rightarrow> string \<Rightarrow> path \<Rightarrow> benchmark \<Rightarrow> fs_op list \<times> (error + unit)" where
  "export_html render info out_path b =
     (case modules b of
        None \<Rightarrow> ([Write_file (joinpath out_path ''unbundled.html'') ''''], Inl TypeError)
      | Some ms \<Rightarrow>
          (let (w1, p1) = export_benchmark render info out_path ms ''unbundled.html'' 0 0;
               (w2, p2) = export_benchmark render info out_path ms ''modulepreload.html''
                            (int (length ms)) 0;
               (w3, p3) = export_benchmark render info out_path ms ''script-preload.html''
                            0 (int (length ms));
               (ws, benchmarks) =
                 (if \<not> dynamic_imports (options b)
                  then (let (w4, p4) = export_bundled render info out_path;
                            (w5, p5) = export_bundled_wbn render info out_path
                        in ([w1, w2, w3, w4, w5], [p1, p2, p3, p4, p5]))
                  else ([w1, w2, w3], [p1, p2, p3]))
           in (case export_index render info out_path benchmarks of
                 Inl e \<Rightarrow> (ws, Inl e)
               | Inr w \<Rightarrow> (ws @ [w], Inr ()))))"

text \<open>\<^verbatim>\<open>Benchmark.export\<close>, and the main program: the tree is built, then exported.\<close>

definition Benchmark_export ::
    "renderer \<Rightarrow> (benchmark \<Rightarrow> string) \<Rightarrow> path \<Rightarrow> benchmark \<Rightarrow> rng
      \<Rightarrow> fs_op list \<times> (error + unit)" where
  "Benchmark_export render output_info out_path b g =
     (case export_modules out_path b g of
        (ops, Inl e) \<Rightarrow> (Mkdir_parents out_path # ops, Inl e)
      | (ops, Inr b1) \<Rightarrow>
          (let bundle = (if \<not> dynamic_imports (options b1) then build_bundles out_path else []);
               (pages, r) = export_html render (output_info b1) out_path b1
           in (Mkdir_parents out_path # ops @ bundle @ pages, r)))"

definition main ::
    "nat \<Rightarrow> options \<Rightarrow> renderer \<Rightarrow> (benchmark \<Rightarrow> string) \<Rightarrow> path \<Rightarrow> rng
      \<Rightarrow> (fs_op list \<times> (error + unit)) option" where
  "main fuel opts render output_info out_path g =
     (case create_module_tree fuel opts of
        None \<Rightarrow> None
      | Some b \<Rightarrow> Some (Benchmark_export render output_info out_path b g))"

section \<open>Reading a run\<close>

text \<open>The files a run writes, and the commands it hands to the shell, in order.\<close>

definition written_files :: "fs_op list \<Rightarrow> path list" where
  "written_files ops = concat (map (\<lambda>x. case x of Write_file p t \<Rightarrow> [p] | _ \<Rightarrow> []) ops)"

definition shell_commands :: "fs_op list \<Rightarrow> string list" where
  "shell_commands ops = concat (map (\<lambda>x. case x of Check_call c \<Rightarrow> [c] | _ \<Rightarrow> []) ops)"

text \<open>The entry of the index page for a comparison page at the output root, and the index page for a list of them.\<close>

definition list_item :: "string \<Rightarrow> string" where
  \<open>list_item f = ''  <li><a href="'' @ f @ ''">'' @ f @ ''</a></li>''\<close>

definition index_text :: "renderer \<Rightarrow> string \<Rightarrow> string list \<Rightarrow> string" where
  "index_text render info fs =
     render ''index'' [(''info'', info), (''benchmarks'', join_str ''\<newline>'' (map list_item fs))]"

text \<open>The artifact of a root without children and without payload, in either loading mode.\<close>

definition root_text :: "bool \<Rightarrow> string" where
  "root_text dyn =
     (if dyn
      then ''export async function f_A() {\<newline>  let a=1;\<newline>  const results = await Promise.all([\<newline>    \<newline>  ]);\<newline>  for (let result of results) a += result;\<newline>  return a;\<newline>}\<newline>''
      else ''export function f_A() {\<newline>  let a=1;\<newline>  return a;\<newline>}\<newline>'')"

definition depth_zero_options :: options where
  "depth_zero_options = \<lparr>depth_opt = 0, rules = [CHR ''A'' \<mapsto> ''A''], sizes = Map.empty,
     dynamic_imports = False\<rparr>"

section \<open>Shape of an expanded tree\<close>

text \<open>
  A module with further children appended, as \<^verbatim>\<open>append\<close> leaves it. A node is the child of
  a parent when it is what the constructor makes from the parent, its own local name (a
  symbol and the decimal index), the size of its symbol and the loading mode, with children
  appended; a tree is linked when every node is the child of its parent in this sense and
  siblings are numbered from zero in order.
\<close>

definition extend :: "module \<Rightarrow> module list \<Rightarrow> module" where
  "extend self new =
     Module (children self @ new) (simple_name self) (depth self) (index self) (size_m self)
       (dynamic_import self) (name self) (path self) (submodule_path self)"

definition is_child_of :: "module \<Rightarrow> options \<Rightarrow> module \<Rightarrow> bool" where
  "is_child_of par opts m =
     (simple_name m \<noteq> []
      \<and> tl (simple_name m) = str_nat (index m)
      \<and> m = extend (Module_init (simple_name m) (Some par) (depth par + 1) (index m)
                (case sizes opts (hd (simple_name m)) of None \<Rightarrow> 0 | Some sz \<Rightarrow> sz)
                (dynamic_imports opts)) (children m))"

fun linked :: "options \<Rightarrow> module \<Rightarrow> bool"
  and linked_list :: "options \<Rightarrow> module \<Rightarrow> nat \<Rightarrow> module list \<Rightarrow> bool"
where
  "linked opts (Module ch sn d i sz dyn nm p sp) = linked_list opts (Module ch sn d i sz dyn nm p sp) 0 ch"
| "linked_list opts par k [] = True"
| "linked_list opts par k (m # ms) =
     (is_child_of par opts m \<and> index m = k \<and> linked opts m \<and> linked_list opts par (Suc k) ms)"

section \<open>The helper as a program\<close>

text \<open>
  The literals that the filler loop draws, and the helper read as a program: a line of the
  filler is the pair of statements \<^verbatim>\<open>a+=N;a-=N;\<close> for one draw \<open>N\<close>. Rendering the program
  gives the text that \<^verbatim>\<open>Module.export\<close> writes.
\<close>

fun draws :: "nat \<Rightarrow> rng \<Rightarrow> nat list \<times> rng" where
  "draws 0 g = ([], g)"
| "draws (Suc n) g =
     (let (number, g1) = randint min_range max_range g;
          (rest, g2) = draws n g1
      in (number # rest, g2))"

datatype stmt = Add_assign nat | Sub_assign nat




definition helper_lines :: "module \<Rightarrow> rng \<Rightarrow> stmt list list" where
  "helper_lines self g =
     map (\<lambda>number. [Add_assign number, Sub_assign number]) (fst (draws (nat (filler_bound self)) g))"

text \<open>
  The statements run on JavaScript numbers. Sums of integers are exact as long as the
  operands and the result are safe integers (of magnitude at most \<open>2\<^sup>5\<^sup>3 - 1\<close>); the model
  gives no value outside that range. The helper starts from \<^verbatim>\<open>a=1\<close> and returns \<^verbatim>\<open>a+100\<close>.
\<close>

definition safe_integer :: "int \<Rightarrow> bool" where
  "safe_integer v = (\<bar>v\<bar> \<le> 2 ^ 53 - 1)"

definition js_add :: "int \<Rightarrow> int \<Rightarrow> int option" where
  "js_add x y = (if safe_integer x \<and> safe_integer y \<and> safe_integer (x + y) then Some (x + y) else None)"

fun exec_stmt :: "stmt \<Rightarrow> int \<Rightarrow> int option" where
  "exec_stmt (Add_assign n) a = js_add a (int n)"
| "exec_stmt (Sub_assign n) a = js_add a (- int n)"

fun exec_stmts :: "stmt list \<Rightarrow> int \<Rightarrow> int option" where
  "exec_stmts [] a = Some a"
| "exec_stmts (s # ss) a = (case exec_stmt s a of None \<Rightarrow> None | Some a1 \<Rightarrow> exec_stmts ss a1)"

definition run_helper :: "stmt list list \<Rightarrow> int option" where
  "run_helper ls = (case exec_stmts (concat ls) 1 of None \<Rightarrow> None | Some a \<Rightarrow> js_add a 100)"

section \<open>Payload scenarios\<close>









section \<open>Reading the pages\<close>








section \<open>Names of siblings\<close>





section \<open>The entry function as a program\<close>

text \<open>
  The entry function that \<^verbatim>\<open>Module.export\<close> writes, read as a program: the import bindings
  at the top of the file (function name and specifier), whether the function is
  \<^verbatim>\<open>async\<close>, its name, whether it calls the helper under \<^verbatim>\<open>document.evaluate_all\<close>, and
  its operations, a direct call \<^verbatim>\<open>f()\<close> of an imported function or
  \<^verbatim>\<open>import('spec').then(m => m.f())\<close>. Rendering the program gives the text written.
\<close>

datatype operation = Call string | Import_call string string


definition function_name :: "module \<Rightarrow> string" where
  "function_name m = ''f_'' @ name m"

definition specifier :: "module \<Rightarrow> module \<Rightarrow> string" where
  "specifier self m = ''./'' @ simple_name self @ ''/'' @ name m @ ''.mjs''"

definition static_imports :: "module \<Rightarrow> (string \<times> string) list" where
  "static_imports self = map (\<lambda>m. (function_name m, specifier self m)) (children self)"

definition static_operations :: "module \<Rightarrow> operation list" where
  "static_operations self = map (\<lambda>m. Call (function_name m)) (children self)"

definition dynamic_operations :: "module \<Rightarrow> operation list" where
  "dynamic_operations self = map (\<lambda>m. Import_call (specifier self m) (function_name m)) (children self)"

datatype entry = Entry
  (entry_imports: "(string \<times> string) list")
  (entry_async: bool)
  (entry_name: string)
  (entry_guarded: bool)
  (entry_operations: "operation list")

definition entry_of :: "module \<Rightarrow> entry" where
  "entry_of self =
     Entry (if dynamic_import self then [] else static_imports self)
       (dynamic_import self) (function_name self) (size_m self \<noteq> 0)
       (if dynamic_import self then dynamic_operations self else static_operations self)"



text \<open>
  The meaning of the program. A loader gives the namespace of the artifact a specifier
  names; a namespace gives the value that a call of an exported function returns. A direct
  call goes through the import binding of the function. With static imports the function
  returns the sum \<^verbatim>\<open>f1()+...+fn()+a\<close>, taken from the left; with dynamic imports
  \<^verbatim>\<open>Promise.all\<close> joins the results of all operations, in the order of the array, and the
  loop adds each of them to \<^verbatim>\<open>a\<close>. A load or a call that fails makes the function fail.
  The numbers are integers, which JavaScript adds exactly while they are safe integers.
  \<^verbatim>\<open>a\<close> starts as 1 and is the helper's result when the page sets
  \<^verbatim>\<open>document.evaluate_all\<close> and the module has a payload.
\<close>

type_synonym namespace = "string \<rightharpoonup> int"

type_synonym loader = "string \<rightharpoonup> namespace"

fun call_operation :: "loader \<Rightarrow> (string \<times> string) list \<Rightarrow> operation \<Rightarrow> int option" where
  "call_operation ld imps (Call f) =
     (case map_of imps f of
        None \<Rightarrow> None
      | Some spec \<Rightarrow> (case ld spec of None \<Rightarrow> None | Some ns \<Rightarrow> ns f))"
| "call_operation ld imps (Import_call spec f) =
     (case ld spec of None \<Rightarrow> None | Some ns \<Rightarrow> ns f)"

fun call_all :: "loader \<Rightarrow> (string \<times> string) list \<Rightarrow> operation list \<Rightarrow> int list option" where
  "call_all ld imps [] = Some []"
| "call_all ld imps (x # xs) =
     (case call_operation ld imps x of
        None \<Rightarrow> None
      | Some v \<Rightarrow> (case call_all ld imps xs of None \<Rightarrow> None | Some vs \<Rightarrow> Some (v # vs)))"

definition sum_left :: "int list \<Rightarrow> int" where
  "sum_left xs = foldl (+) (hd xs) (tl xs)"

definition helper_result :: int where
  "helper_result = 101"

definition run_entry :: "loader \<Rightarrow> bool \<Rightarrow> entry \<Rightarrow> int option" where
  "run_entry ld evaluate_all e =
     (let a = (if entry_guarded e \<and> evaluate_all then helper_result else 1)
      in (case call_all ld (entry_imports e) (entry_operations e) of
            None \<Rightarrow> None
          | Some results \<Rightarrow>
              Some (if entry_async e then fold (\<lambda>result a. a + result) results a
                    else sum_left (results @ [a]))))"

text \<open>
  The entry function of a node in its tree: the specifier of a child names the artifact of
  that child, which exports the child's entry function.
\<close>

definition loaded :: "module \<Rightarrow> module \<Rightarrow> int option \<Rightarrow> string \<times> namespace" where
  "loaded self m r =
     (specifier self m, case r of None \<Rightarrow> Map.empty | Some v \<Rightarrow> [function_name m \<mapsto> v])"

definition loader_of :: "module \<Rightarrow> int option list \<Rightarrow> loader" where
  "loader_of self rs = map_of (map (\<lambda>(m, r). loaded self m r) (zip (children self) rs))"

fun entry_result :: "bool \<Rightarrow> module \<Rightarrow> int option"
  and entry_results :: "bool \<Rightarrow> module list \<Rightarrow> int option list"
where
  "entry_result evaluate_all (Module ch sn d i sz dyn nm p sp) =
     (let self = Module ch sn d i sz dyn nm p sp
      in run_entry (loader_of self (entry_results evaluate_all ch)) evaluate_all (entry_of self))"
| "entry_results evaluate_all [] = []"
| "entry_results evaluate_all (m # ms) = entry_result evaluate_all m # entry_results evaluate_all ms"


fun with_mode :: "bool \<Rightarrow> module \<Rightarrow> module"
  and with_mode_list :: "bool \<Rightarrow> module list \<Rightarrow> module list"
where
  "with_mode dyn' (Module ch sn d i sz dyn nm p sp) = Module (with_mode_list dyn' ch) sn d i sz dyn' nm p sp"
| "with_mode_list dyn' [] = []"
| "with_mode_list dyn' (m # ms) = with_mode dyn' m # with_mode_list dyn' ms"

section \<open>Verification\<close>

subsection \<open>Fuel\<close>

text \<open>More fuel never changes a result of the expansion.\<close>

lemma expand_fuel_Suc:
  "(\<forall>r. expand_recurse fuel self symbol opts acc = Some r \<longrightarrow>
        expand_recurse (Suc fuel) self symbol opts acc = Some r)"
  "(\<forall>r'. expand_loop fuel' self' expansion i opts' acc' = Some r' \<longrightarrow>
        expand_loop (Suc fuel') self' expansion i opts' acc' = Some r')"
proof (induction fuel self symbol opts acc and fuel' self' expansion i opts' acc'
    rule: expand_recurse_expand_loop.induct)
  case (1 self symbol opts accumulator)
  show ?case by simp
next
  case (2 fuel self symbol opts accumulator)
  show ?case
  proof (intro allI impI)
    fix r
    assume a: "expand_recurse (Suc fuel) self symbol opts accumulator = Some r"
    show "expand_recurse (Suc (Suc fuel)) self symbol opts accumulator = Some r"
    proof (cases "depth self = depth_opt opts")
      case True
      with a show ?thesis by simp
    next
      case False
      show ?thesis
      proof (cases "rules opts symbol")
        case None
        with a False show ?thesis by simp
      next
        case (Some expansion)
        from a False Some obtain s' a' where
          l: "expand_loop fuel self expansion 0 opts accumulator = Some (s', a')"
          and r: "r = (s', a', Some a')"
          by (auto split: option.splits)
        from "2.IH" [OF False Some] l
        have "expand_loop (Suc fuel) self expansion 0 opts accumulator = Some (s', a')"
          by blast
        with False Some r show ?thesis
          by (simp add: expand_recurse.simps(2) [of "Suc fuel"])
      qed
    qed
  qed
next
  case (3 fuel self i opts accumulator)
  show ?case by simp
next
  case (4 fuel self symbol rest i opts accumulator)
  define m where "m = Module_init (symbol # str_nat i) (Some self) (depth self + 1) i
                (case sizes opts symbol of None \<Rightarrow> 0 | Some sz \<Rightarrow> sz) (dynamic_imports opts)"
  show ?case
  proof (intro allI impI)
    fix r'
    assume a: "expand_loop fuel self (symbol # rest) i opts accumulator = Some r'"
    from a obtain m' acc' ret where
      e: "expand_recurse fuel m symbol opts (accumulator @ [m]) = Some (m', acc', ret)"
      and l: "expand_loop fuel (append_child self m') rest (i + 1) opts
                (acc'[length accumulator := m']) = Some r'"
      by (auto simp: m_def Let_def split: option.splits)
    from "4.IH"(1) [OF m_def] e
    have e': "expand_recurse (Suc fuel) m symbol opts (accumulator @ [m]) = Some (m', acc', ret)"
      by blast
    from "4.IH"(2) [OF m_def e refl refl] l
    have l': "expand_loop (Suc fuel) (append_child self m') rest (i + 1) opts
                (acc'[length accumulator := m']) = Some r'"
      by blast
    show "expand_loop (Suc fuel) self (symbol # rest) i opts accumulator = Some r'"
      using e' l' unfolding m_def by (simp del: expand_recurse.simps)
  qed
qed

lemma expand_recurse_fuel_mono:
  "expand_recurse fuel self symbol opts acc = Some r \<Longrightarrow> fuel \<le> fuel' \<Longrightarrow>
   expand_recurse fuel' self symbol opts acc = Some r"
proof (induction fuel' )
  case 0
  then show ?case by simp
next
  case (Suc k)
  show ?case
  proof (cases "fuel = Suc k")
    case True with Suc.prems show ?thesis by simp
  next
    case False
    with Suc.prems have "fuel \<le> k" by simp
    with Suc have "expand_recurse k self symbol opts acc = Some r" by simp
    then show ?thesis using expand_fuel_Suc(1) by blast
  qed
qed

lemma create_module_tree_fuel_mono:
  assumes "create_module_tree fuel opts = Some b" and "fuel \<le> fuel'"
  shows "create_module_tree fuel' opts = Some b"
proof -
  let ?start = "Module_init [ROOT_AXIOM] None 0 0 0 (dynamic_imports opts)"
  from assms(1) obtain r where r: "expand_recurse fuel ?start ROOT_AXIOM opts [] = Some r"
    by (auto simp: create_module_tree_def split: option.splits)
  then have "expand_recurse fuel' ?start ROOT_AXIOM opts [] = Some r"
    using assms(2) by (rule expand_recurse_fuel_mono)
  with r assms(1) show ?thesis
    by (simp add: create_module_tree_def)
qed

subsection \<open>The scenario of two rules\<close>

lemma scenario_tree_3:
  "create_module_tree 3 scenario_options =
     Some \<lparr>options = scenario_options, start_module = scenario_tree,
            modules = Some (descendants scenario_tree)\<rparr>"
  by code_simp

text \<open>
  C1. For the rules \<open>A \<rightarrow> AB\<close>, \<open>B \<rightarrow> BBB\<close>, depth 2 and no sizes, the expansion from the
  root returns (given room for three nested calls) a tree whose root has two children at
  depth 1 with symbols A and B; the A child has two children at depth 2, the B child three;
  and the accumulator holds the seven nodes below the root, in the order of their creation.
\<close>

theorem C1_scenario_expansion:
  assumes "2 < fuel"
  shows "\<exists>b. create_module_tree fuel scenario_options = Some b
    \<and> map (\<lambda>m. (hd (simple_name m), depth m)) (children (start_module b))
        = [(CHR ''A'', 1), (CHR ''B'', 1)]
    \<and> map (\<lambda>m. map (\<lambda>c. (hd (simple_name c), depth c)) (children m)) (children (start_module b))
        = [[(CHR ''A'', 2), (CHR ''B'', 2)], [(CHR ''B'', 2), (CHR ''B'', 2), (CHR ''B'', 2)]]
    \<and> modules b = Some (descendants (start_module b))
    \<and> map name (descendants (start_module b))
        = [''A_A0'', ''A_A0_A0'', ''A_A0_B1'', ''A_B1'', ''A_B1_B0'', ''A_B1_B1'', ''A_B1_B2'']
    \<and> length (descendants (start_module b)) = 7"
proof -
  from assms have "3 \<le> fuel" by simp
  with scenario_tree_3
  have "create_module_tree fuel scenario_options =
     Some \<lparr>options = scenario_options, start_module = scenario_tree,
            modules = Some (descendants scenario_tree)\<rparr>"
    by (rule create_module_tree_fuel_mono)
  then show ?thesis
    by (simp add: scenario_tree_def)
qed

theorem C1_scenario_expansion_witness:
  "\<exists>b. create_module_tree 3 scenario_options = Some b
    \<and> map (\<lambda>m. (hd (simple_name m), depth m)) (children (start_module b))
        = [(CHR ''A'', 1), (CHR ''B'', 1)]
    \<and> map (\<lambda>m. map (\<lambda>c. (hd (simple_name c), depth c)) (children m)) (children (start_module b))
        = [[(CHR ''A'', 2), (CHR ''B'', 2)], [(CHR ''B'', 2), (CHR ''B'', 2), (CHR ''B'', 2)]]
    \<and> modules b = Some (descendants (start_module b))
    \<and> map name (descendants (start_module b))
        = [''A_A0'', ''A_A0_A0'', ''A_A0_B1'', ''A_B1'', ''A_B1_B0'', ''A_B1_B1'', ''A_B1_B2'']
    \<and> length (descendants (start_module b)) = 7"
  using C1_scenario_expansion [of 3] by simp

subsection \<open>A tree of depth zero\<close>

lemma root_init:
  "Module_init [ROOT_AXIOM] None 0 0 0 dyn = Module [] ''A'' 0 0 0 dyn ''A'' [''A.mjs''] [''A'']"
  by (simp add: Module_init_def ROOT_AXIOM_def path_of_str_def joinpath_def join_paths_def
      parent_path_def is_absolute_def)

lemma create_module_tree_depth_0:
  assumes "depth_opt opts = 0" and "0 < fuel"
  shows "create_module_tree fuel opts =
     Some \<lparr>options = opts,
       start_module = Module [] ''A'' 0 0 0 (dynamic_imports opts) ''A'' [''A.mjs''] [''A''],
       modules = None\<rparr>"
proof -
  from assms(2) obtain k where "fuel = Suc k" by (cases fuel) auto
  with assms(1) show ?thesis
    by (simp add: create_module_tree_def root_init)
qed

lemma file_text_leaf_static:
  "file_text (Module [] sn d i 0 False nm p sp) g =
     (''export function f_'' @ nm @ ''() {\<newline>  let a=1;\<newline>  return a;\<newline>}\<newline>'', g)"
  by (simp add: file_text_def operations_joined_def write_static_imports_def)

lemma file_text_leaf_dynamic:
  "file_text (Module [] sn d i 0 True nm p sp) g =
     (''export async function f_'' @ nm @ ''() {\<newline>  let a=1;\<newline>  const results = await Promise.all([\<newline>    \<newline>  ]);\<newline>  for (let result of results) a += result;\<newline>  return a;\<newline>}\<newline>'', g)"
  by (simp add: file_text_def operations_joined_def create_dynamic_imports_def)

text \<open>
  C6. With the depth set to 0 the tree is the root alone, and the run writes exactly one
  artifact, the file of the root, and makes no directory below the output directory. (The
  root call of the expansion returned \<^verbatim>\<open>None\<close>, so the run then ends in the
  \<^verbatim>\<open>TypeError\<close> of \<^verbatim>\<open>len(self.modules)\<close>: no page is written.)
\<close>

theorem C6_depth_zero:
  assumes "depth_opt opts = 0" and "0 < fuel"
  shows "\<exists>b. create_module_tree fuel opts = Some b
     \<and> children (start_module b) = []
     \<and> descendants (start_module b) = []
     \<and> fst (Module_export out_path (start_module b) g)
         = [Write_file (join_paths out_path [''A.mjs'']) (root_text (dynamic_imports opts))]
     \<and> main fuel opts render output_info out_path g
         = Some ([Mkdir_parents out_path,
                  Write_file (join_paths out_path [''A.mjs'']) (root_text (dynamic_imports opts))],
                 Inl TypeError)"
  using create_module_tree_depth_0 [OF assms]
  by (cases "dynamic_imports opts")
     (simp_all add: main_def Benchmark_export_def export_modules_def has_children_def root_text_def
      file_text_leaf_static file_text_leaf_dynamic)

theorem C6_depth_zero_witness:
  "\<exists>b. create_module_tree 1 depth_zero_options = Some b
     \<and> children (start_module b) = []
     \<and> descendants (start_module b) = []
     \<and> fst (Module_export [''out''] (start_module b) (\<lambda>k. 0))
         = [Write_file [''out'', ''A.mjs''] (root_text False)]
     \<and> main 1 depth_zero_options (\<lambda>n s. n) (\<lambda>b. []) [''out''] (\<lambda>k. 0)
         = Some ([Mkdir_parents [''out''], Write_file [''out'', ''A.mjs''] (root_text False)],
                 Inl TypeError)"
  using C6_depth_zero [of depth_zero_options 1 "[''out'']" "\<lambda>k. 0" "\<lambda>n s. n" "\<lambda>b. []"]
  by (simp add: depth_zero_options_def join_paths_def is_absolute_def)

subsection \<open>Comparison pages\<close>

lemma joinpath_file:
  "joinpath out ''unbundled.html'' = out @ [''unbundled.html'']"
  "joinpath out ''modulepreload.html'' = out @ [''modulepreload.html'']"
  "joinpath out ''script-preload.html'' = out @ [''script-preload.html'']"
  "joinpath out ''rollup.html'' = out @ [''rollup.html'']"
  "joinpath out ''webbundle.html'' = out @ [''webbundle.html'']"
  "joinpath out ''index.html'' = out @ [''index.html'']"
  by (simp_all add: joinpath_def join_paths_def path_of_str_def is_absolute_def)

lemma relative_to_file: "relative_to (out @ [f]) out = Inr [f]"
  by (simp add: relative_to_def)

lemma path_name_file: "f \<noteq> ''/'' \<Longrightarrow> f \<noteq> ''//'' \<Longrightarrow> path_name (out @ [f]) = f"
  by (cases out) (simp_all add: path_name_def is_absolute_def)

lemma benchmark_list_lines_files:
  "\<forall>f \<in> set fs. f \<noteq> ''/'' \<and> f \<noteq> ''//'' \<Longrightarrow>
   benchmark_list_lines out (map (\<lambda>f. out @ [f]) fs) = Inr (map list_item fs)"
  by (induction fs)
     (simp_all add: relative_to_file path_name_file list_item_def str_path_def is_absolute_def)

lemma export_index_files:
  "\<forall>f \<in> set fs. f \<noteq> ''/'' \<and> f \<noteq> ''//'' \<Longrightarrow>
   export_index render info out (map (\<lambda>f. out @ [f]) fs)
     = Inr (Write_file (out @ [''index.html'']) (index_text render info fs))"
  by (simp add: export_index_def output_benchmark_list_def benchmark_list_lines_files
      joinpath_file index_text_def)

lemma export_html_dynamic:
  assumes "modules b = Some ms" and "dynamic_imports (options b)"
  shows "export_html render info out b =
     ([fst (export_benchmark render info out ms ''unbundled.html'' 0 0),
       fst (export_benchmark render info out ms ''modulepreload.html'' (int (length ms)) 0),
       fst (export_benchmark render info out ms ''script-preload.html'' 0 (int (length ms))),
       Write_file (out @ [''index.html''])
         (index_text render info [''unbundled.html'', ''modulepreload.html'', ''script-preload.html''])],
      Inr ())"
  using assms
    export_index_files [of "[''unbundled.html'', ''modulepreload.html'', ''script-preload.html'']" render info out]
  by (simp add: export_html_def export_benchmark_def Let_def joinpath_file)

lemma export_html_static:
  assumes "modules b = Some ms" and "\<not> dynamic_imports (options b)"
  shows "export_html render info out b =
     ([fst (export_benchmark render info out ms ''unbundled.html'' 0 0),
       fst (export_benchmark render info out ms ''modulepreload.html'' (int (length ms)) 0),
       fst (export_benchmark render info out ms ''script-preload.html'' 0 (int (length ms))),
       fst (export_bundled render info out),
       fst (export_bundled_wbn render info out),
       Write_file (out @ [''index.html''])
         (index_text render info [''unbundled.html'', ''modulepreload.html'', ''script-preload.html'',
            ''rollup.html'', ''webbundle.html''])],
      Inr ())"
  using assms
    export_index_files [of "[''unbundled.html'', ''modulepreload.html'', ''script-preload.html'',
            ''rollup.html'', ''webbundle.html'']" render info out]
  by (simp add: export_html_def export_benchmark_def export_bundled_def export_bundled_wbn_def
      Let_def joinpath_file)

lemma written_files_export_benchmark:
  "written_files [fst (export_benchmark render info out ms f a c)] = [joinpath out f]"
  by (simp add: written_files_def export_benchmark_def Let_def)

text \<open>
  For a benchmark whose module list is a list: with dynamic imports the pages written are
  the unbundled page, the two preload pages and the index, and the index lists these three
  pages only; with static imports all five comparison pages are written and listed.
\<close>

lemma export_html_pages:
  assumes "modules b = Some ms"
  shows "(dynamic_imports (options b) \<longrightarrow>
            snd (export_html render info out b) = Inr ()
          \<and> written_files (fst (export_html render info out b))
              = map (\<lambda>f. out @ [f])
                  [''unbundled.html'', ''modulepreload.html'', ''script-preload.html'', ''index.html'']
          \<and> last (fst (export_html render info out b))
              = Write_file (out @ [''index.html''])
                  (index_text render info
                     [''unbundled.html'', ''modulepreload.html'', ''script-preload.html'']))
       \<and> (\<not> dynamic_imports (options b) \<longrightarrow>
            snd (export_html render info out b) = Inr ()
          \<and> written_files (fst (export_html render info out b))
              = map (\<lambda>f. out @ [f])
                  [''unbundled.html'', ''modulepreload.html'', ''script-preload.html'',
                   ''rollup.html'', ''webbundle.html'', ''index.html'']
          \<and> last (fst (export_html render info out b))
              = Write_file (out @ [''index.html''])
                  (index_text render info
                     [''unbundled.html'', ''modulepreload.html'', ''script-preload.html'',
                      ''rollup.html'', ''webbundle.html'']))"
proof (cases "dynamic_imports (options b)")
  case True
  show ?thesis
    using True
    by (simp add: export_html_dynamic [OF assms True] written_files_def export_benchmark_def
        Let_def joinpath_file)
next
  case False
  show ?thesis
    using False
    by (simp add: export_html_static [OF assms False] written_files_def export_benchmark_def
        export_bundled_def export_bundled_wbn_def Let_def joinpath_file)
qed

subsection \<open>Enough fuel, and the shape of the result\<close>

lemma depth_Module_init [simp]: "depth (Module_init nm parent d i sz dyn) = d"
  by (cases parent) (simp_all add: Module_init_def Let_def)

lemma children_Module_init [simp]: "children (Module_init nm parent d i sz dyn) = []"
  by (cases parent) (simp_all add: Module_init_def Let_def)

lemma append_child_sel [simp]:
  "children (append_child self m) = children self @ [m]"
  "depth (append_child self m) = depth self"
  "simple_name (append_child self m) = simple_name self"
  "index (append_child self m) = index self"
  "size_m (append_child self m) = size_m self"
  "dynamic_import (append_child self m) = dynamic_import self"
  "name (append_child self m) = name self"
  "path (append_child self m) = path self"
  "submodule_path (append_child self m) = submodule_path self"
  by (simp_all add: append_child_def)

lemma expand_enough_fuel:
  "depth self \<le> depth_opt opts \<longrightarrow> depth_opt opts - depth self < fuel \<longrightarrow>
     (\<exists>r. expand_recurse fuel self symbol opts acc = Some r)"
  "depth self' < depth_opt opts' \<longrightarrow> depth_opt opts' - depth self' \<le> fuel' \<longrightarrow>
     (\<exists>r. expand_loop fuel' self' expansion i opts' acc' = Some r)"
proof (induction fuel self symbol opts acc and fuel' self' expansion i opts' acc'
    rule: expand_recurse_expand_loop.induct)
  case (1 self symbol opts accumulator)
  show ?case by simp
next
  case (2 fuel self symbol opts accumulator)
  show ?case
  proof (intro impI)
    assume le: "depth self \<le> depth_opt opts" and f: "depth_opt opts - depth self < Suc fuel"
    show "\<exists>r. expand_recurse (Suc fuel) self symbol opts accumulator = Some r"
    proof (cases "depth self = depth_opt opts")
      case True
      then show ?thesis by simp
    next
      case False
      show ?thesis
      proof (cases "rules opts symbol")
        case None
        with False show ?thesis by simp
      next
        case (Some expansion)
        from False le f have "depth self < depth_opt opts" "depth_opt opts - depth self \<le> fuel"
          by simp_all
        with "2.IH" [OF False Some]
        obtain r where "expand_loop fuel self expansion 0 opts accumulator = Some r" by blast
        with False Some show ?thesis by (cases r) simp
      qed
    qed
  qed
next
  case (3 fuel self i opts accumulator)
  show ?case by simp
next
  case (4 fuel self symbol rest i opts accumulator)
  define m where "m = Module_init (symbol # str_nat i) (Some self) (depth self + 1) i
                (case sizes opts symbol of None \<Rightarrow> 0 | Some sz \<Rightarrow> sz) (dynamic_imports opts)"
  show ?case
  proof (intro impI)
    assume lt: "depth self < depth_opt opts" and f: "depth_opt opts - depth self \<le> fuel"
    have dm: "depth m = depth self + 1" by (simp add: m_def)
    with lt f have "depth m \<le> depth_opt opts" "depth_opt opts - depth m < fuel" by simp_all
    with "4.IH"(1) [OF m_def]
    obtain m' acc' ret where
      e: "expand_recurse fuel m symbol opts (accumulator @ [m]) = Some (m', acc', ret)"
      by (metis prod_cases3)
    from "4.IH"(2) [OF m_def e refl refl] lt f
    obtain r where "expand_loop fuel (append_child self m') rest (i + 1) opts
                (acc'[length accumulator := m']) = Some r"
      by auto
    with e show "\<exists>r. expand_loop fuel self (symbol # rest) i opts accumulator = Some r"
      unfolding m_def by (simp del: expand_recurse.simps)
  qed
qed

lemma create_module_tree_enough_fuel:
  assumes "depth_opt opts < fuel"
  shows "\<exists>b. create_module_tree fuel opts = Some b"
proof -
  let ?start = "Module_init [ROOT_AXIOM] None 0 0 0 (dynamic_imports opts)"
  have "depth ?start \<le> depth_opt opts" "depth_opt opts - depth ?start < fuel"
    using assms by simp_all
  with expand_enough_fuel(1) [of ?start opts fuel ROOT_AXIOM "[]"]
  obtain r where "expand_recurse fuel ?start ROOT_AXIOM opts [] = Some r" by blast
  then show ?thesis by (cases r) (simp add: create_module_tree_def)
qed

lemma extend_sel [simp]:
  "children (extend self new) = children self @ new"
  "depth (extend self new) = depth self"
  "simple_name (extend self new) = simple_name self"
  "index (extend self new) = index self"
  "size_m (extend self new) = size_m self"
  "dynamic_import (extend self new) = dynamic_import self"
  "name (extend self new) = name self"
  "path (extend self new) = path self"
  "submodule_path (extend self new) = submodule_path self"
  by (simp_all add: extend_def)

lemma extend_Nil [simp]: "extend self [] = self"
  by (cases self) (simp add: extend_def)

lemma extend_extend [simp]: "extend (extend self xs) ys = extend self (xs @ ys)"
  by (simp add: extend_def)

lemma append_child_extend: "append_child self m = extend self [m]"
  by (simp add: append_child_def extend_def)

lemma linked_children: "linked opts m = linked_list opts m 0 (children m)"
  by (cases m) simp

lemma Module_init_Some_cong:
  "submodule_path par = submodule_path par' \<Longrightarrow>
   Module_init nm (Some par) d i sz dyn = Module_init nm (Some par') d i sz dyn"
  by (simp add: Module_init_def)

lemma is_child_of_cong:
  "submodule_path par = submodule_path par' \<Longrightarrow> depth par = depth par' \<Longrightarrow>
   is_child_of par opts m = is_child_of par' opts m"
  by (simp add: is_child_of_def Module_init_Some_cong [of par par'])

lemma linked_list_cong:
  "submodule_path par = submodule_path par' \<Longrightarrow> depth par = depth par' \<Longrightarrow>
   linked_list opts par k ms = linked_list opts par' k ms"
  by (induction ms arbitrary: k) (simp_all add: is_child_of_cong [of par par'])

lemma linked_list_append:
  "linked_list opts par k (xs @ ys) =
     (linked_list opts par k xs \<and> linked_list opts par (k + length xs) ys)"
  by (induction xs arbitrary: k) simp_all

lemma descendants_children: "descendants m = descendants_list (children m)"
  by (cases m) simp

lemma descendants_list_append:
  "descendants_list (xs @ ys) = descendants_list xs @ descendants_list ys"
  by (induction xs) simp_all

lemma expand_structure:
  "\<forall>self1 acc1 ret. expand_recurse fuel self symbol opts acc = Some (self1, acc1, ret) \<longrightarrow>
     children self = [] \<longrightarrow>
     (\<exists>new. self1 = extend self new \<and> acc1 = acc @ descendants_list new
        \<and> linked_list opts self 0 new
        \<and> (ret = None \<and> new = [] \<or> ret = Some acc1))"
  "\<forall>self1 acc1. expand_loop fuel' self' expansion i opts' acc' = Some (self1, acc1) \<longrightarrow>
     (\<exists>new. self1 = extend self' new \<and> acc1 = acc' @ descendants_list new
        \<and> linked_list opts' self' i new \<and> map (hd \<circ> simple_name) new = expansion)"
proof (induction fuel self symbol opts acc and fuel' self' expansion i opts' acc'
    rule: expand_recurse_expand_loop.induct)
  case (1 self symbol opts accumulator)
  show ?case by simp
next
  case (2 fuel self symbol opts accumulator)
  show ?case
  proof (intro allI impI)
    fix self1 acc1 ret
    assume a: "expand_recurse (Suc fuel) self symbol opts accumulator = Some (self1, acc1, ret)"
      and ch: "children self = []"
    show "\<exists>new. self1 = extend self new \<and> acc1 = accumulator @ descendants_list new
        \<and> linked_list opts self 0 new \<and> (ret = None \<and> new = [] \<or> ret = Some acc1)"
    proof (cases "depth self = depth_opt opts")
      case True
      with a have "self1 = extend self [] \<and> acc1 = accumulator @ descendants_list []
        \<and> linked_list opts self 0 [] \<and> (ret = None \<and> [] = ([]::module list) \<or> ret = Some acc1)"
        by simp
      then show ?thesis by blast
    next
      case False
      show ?thesis
      proof (cases "rules opts symbol")
        case None
        with a False have "self1 = extend self [] \<and> acc1 = accumulator @ descendants_list []
          \<and> linked_list opts self 0 [] \<and> (ret = None \<and> [] = ([]::module list) \<or> ret = Some acc1)"
          by simp
        then show ?thesis by blast
      next
        case (Some expansion)
        from a False Some have l: "expand_loop fuel self expansion 0 opts accumulator = Some (self1, acc1)"
          and r: "ret = Some acc1"
          by (auto split: option.splits)
        from "2.IH" [OF False Some] l obtain new where
          "self1 = extend self new" "acc1 = accumulator @ descendants_list new"
          "linked_list opts self 0 new"
          by blast
        with r show ?thesis by blast
      qed
    qed
  qed
next
  case (3 fuel self i opts accumulator)
  show ?case by (auto intro!: exI [of _ "[]"])
next
  case (4 fuel self symbol rest i opts accumulator)
  define m where "m = Module_init (symbol # str_nat i) (Some self) (depth self + 1) i
                (case sizes opts symbol of None \<Rightarrow> 0 | Some sz \<Rightarrow> sz) (dynamic_imports opts)"
  show ?case
  proof (intro allI impI)
    fix self1 acc1
    assume a: "expand_loop fuel self (symbol # rest) i opts accumulator = Some (self1, acc1)"
    from a obtain m' acc2 ret where
      e: "expand_recurse fuel m symbol opts (accumulator @ [m]) = Some (m', acc2, ret)"
      and l: "expand_loop fuel (append_child self m') rest (i + 1) opts
                (acc2[length accumulator := m']) = Some (self1, acc1)"
      by (auto simp: m_def Let_def split: option.splits simp del: expand_recurse.simps)
    have chm: "children m = []" by (simp add: m_def)
    from "4.IH"(1) [OF m_def] e chm obtain new1 where
      m': "m' = extend m new1" and acc2: "acc2 = (accumulator @ [m]) @ descendants_list new1"
      and l1: "linked_list opts m 0 new1"
      by blast
    from "4.IH"(2) [OF m_def e refl refl] l obtain new2 where
      s1: "self1 = extend (append_child self m') new2"
      and acc1: "acc1 = acc2[length accumulator := m'] @ descendants_list new2"
      and l2: "linked_list opts (append_child self m') (i + 1) new2"
      and sy: "map (hd \<circ> simple_name) new2 = rest"
      by blast
    have upd: "acc2[length accumulator := m'] = accumulator @ [m'] @ descendants_list new1"
      by (simp add: acc2 list_update_append)
    have dm': "descendants m' = descendants_list new1"
      by (simp add: descendants_children m' chm)
    have sn: "simple_name m = symbol # str_nat i" "index m = i"
      by (simp_all add: m_def Module_init_def Let_def)
    have child: "is_child_of self opts m'"
      unfolding is_child_of_def
      by (simp add: m' sn chm) (simp add: m_def)
    have lm': "linked opts m'"
    proof -
      have "linked_list opts m' 0 new1"
        using l1 linked_list_cong [of m m' opts 0 new1] by (simp add: m')
      moreover have "children m' = new1" by (simp add: m' chm)
      ultimately show ?thesis by (simp only: linked_children [of opts m'])
    qed
    have l2': "linked_list opts self (Suc i) new2"
      using l2 linked_list_cong [of "append_child self m'" self] by simp
    have "self1 = extend self (m' # new2)"
      by (simp add: s1 append_child_extend)
    moreover have "acc1 = accumulator @ descendants_list (m' # new2)"
      by (simp add: acc1 upd dm')
    moreover have "linked_list opts self i (m' # new2)"
      using child lm' l2' by (simp add: m' sn)
    moreover have "map (hd \<circ> simple_name) (m' # new2) = symbol # rest"
      by (simp add: sy m' sn)
    ultimately show "\<exists>new. self1 = extend self new \<and> acc1 = accumulator @ descendants_list new
        \<and> linked_list opts self i new \<and> map (hd \<circ> simple_name) new = symbol # rest"
      by (intro exI [of _ "m' # new2"] conjI)
  qed
qed

subsection \<open>Runs of positive depth, and runs of depth zero\<close>

lemma create_module_tree_shape:
  assumes "create_module_tree fuel opts = Some b"
  shows "options b = opts"
    and "linked opts (start_module b)"
    and "start_module b = extend (Module_init [ROOT_AXIOM] None 0 0 0 (dynamic_imports opts))
           (children (start_module b))"
    and "modules b = None \<and> children (start_module b) = []
         \<or> modules b = Some (descendants (start_module b))"
proof -
  let ?start = "Module_init [ROOT_AXIOM] None 0 0 0 (dynamic_imports opts)"
  from assms obtain s1 acc1 ret where
    e: "expand_recurse fuel ?start ROOT_AXIOM opts [] = Some (s1, acc1, ret)"
    and b: "b = \<lparr>options = opts, start_module = s1, modules = ret\<rparr>"
    by (auto simp: create_module_tree_def split: option.splits)
  have ch: "children ?start = []" by simp
  from expand_structure(1) [of fuel ?start ROOT_AXIOM opts "[]"] e ch obtain new where
    s1: "s1 = extend ?start new" and acc1: "acc1 = descendants_list new"
    and l: "linked_list opts ?start 0 new" and r: "ret = None \<and> new = [] \<or> ret = Some acc1"
    by auto
  have chs: "children s1 = new" by (simp add: s1)
  show "options b = opts" by (simp add: b)
  have "linked_list opts s1 0 new"
    using l linked_list_cong [of ?start s1 opts 0 new] by (simp add: s1)
  then show "linked opts (start_module b)"
    using chs by (simp add: b linked_children [of opts s1])
  show "start_module b = extend ?start (children (start_module b))"
    using s1 chs by (simp add: b)
  show "modules b = None \<and> children (start_module b) = []
         \<or> modules b = Some (descendants (start_module b))"
    using r acc1 chs by (auto simp: b descendants_children [of s1])
qed

lemma create_module_tree_modules:
  assumes "create_module_tree fuel opts = Some b"
    and "0 < depth_opt opts" and "rules opts ROOT_AXIOM = Some e"
  shows "modules b = Some (descendants (start_module b))"
proof -
  let ?start = "Module_init [ROOT_AXIOM] None 0 0 0 (dynamic_imports opts)"
  from assms(1) obtain s1 acc1 ret where
    e: "expand_recurse fuel ?start ROOT_AXIOM opts [] = Some (s1, acc1, ret)"
    and b: "b = \<lparr>options = opts, start_module = s1, modules = ret\<rparr>"
    by (auto simp: create_module_tree_def split: option.splits)
  from e obtain k where k: "fuel = Suc k" by (cases fuel) auto
  have "depth ?start \<noteq> depth_opt opts" using assms(2) by simp
  with e k assms(3) have "ret \<noteq> None"
    by (auto split: option.splits)
  with create_module_tree_shape(4) [OF assms(1)] b show ?thesis by auto
qed

lemma export_modules_Some:
  assumes "modules b = Some ms"
  shows "export_modules out_path b g =
     (fst (Module_export out_path (start_module b) g), Inr (b\<lparr>modules := Some (sort_modules ms)\<rparr>))"
  using assms by (simp add: export_modules_def split: prod.splits)

lemma pages_of_run:
  assumes "0 < depth_opt opts" and "rules opts ROOT_AXIOM = Some e" and "depth_opt opts < fuel"
  shows "\<exists>b b1. create_module_tree fuel opts = Some b
     \<and> b1 = b\<lparr>modules := Some (sort_modules (descendants (start_module b)))\<rparr>
     \<and> main fuel opts render output_info out_path g
         = Some (Mkdir_parents out_path # fst (Module_export out_path (start_module b) g)
                   @ (if dynamic_imports opts then [] else build_bundles out_path)
                   @ fst (export_html render (output_info b1) out_path b1), Inr ())
     \<and> written_files (fst (export_html render (output_info b1) out_path b1))
         = map (\<lambda>f. out_path @ [f])
             (if dynamic_imports opts
              then [''unbundled.html'', ''modulepreload.html'', ''script-preload.html'', ''index.html'']
              else [''unbundled.html'', ''modulepreload.html'', ''script-preload.html'',
                    ''rollup.html'', ''webbundle.html'', ''index.html''])
     \<and> last (fst (export_html render (output_info b1) out_path b1))
         = Write_file (out_path @ [''index.html''])
             (index_text render (output_info b1)
               (if dynamic_imports opts
                then [''unbundled.html'', ''modulepreload.html'', ''script-preload.html'']
                else [''unbundled.html'', ''modulepreload.html'', ''script-preload.html'',
                      ''rollup.html'', ''webbundle.html'']))"
proof -
  from create_module_tree_enough_fuel [OF assms(3)] obtain b where
    b: "create_module_tree fuel opts = Some b" by blast
  have ms: "modules b = Some (descendants (start_module b))"
    using b assms(1,2) by (rule create_module_tree_modules)
  have ob: "options b = opts" using b by (rule create_module_tree_shape(1))
  define b1 where "b1 = b\<lparr>modules := Some (sort_modules (descendants (start_module b)))\<rparr>"
  have m1: "modules b1 = Some (sort_modules (descendants (start_module b)))"
    and o1: "options b1 = opts"
    by (simp_all add: b1_def ob)
  have em: "export_modules out_path b g = (fst (Module_export out_path (start_module b) g), Inr b1)"
    using export_modules_Some [OF ms] by (simp add: b1_def)
  have sn: "snd (export_html render (output_info b1) out_path b1) = Inr ()"
    using export_html_pages [OF m1, of render "output_info b1" out_path]
    by (cases "dynamic_imports opts") (simp_all add: o1)
  have "main fuel opts render output_info out_path g
         = Some (Mkdir_parents out_path # fst (Module_export out_path (start_module b) g)
                   @ (if dynamic_imports opts then [] else build_bundles out_path)
                   @ fst (export_html render (output_info b1) out_path b1), Inr ())"
    using sn by (auto simp: main_def b Benchmark_export_def em o1 split: prod.splits)
  moreover have "written_files (fst (export_html render (output_info b1) out_path b1))
         = map (\<lambda>f. out_path @ [f])
             (if dynamic_imports opts
              then [''unbundled.html'', ''modulepreload.html'', ''script-preload.html'', ''index.html'']
              else [''unbundled.html'', ''modulepreload.html'', ''script-preload.html'',
                    ''rollup.html'', ''webbundle.html'', ''index.html''])"
    using export_html_pages [OF m1, of render "output_info b1" out_path]
    by (cases "dynamic_imports opts") (simp_all add: o1)
  moreover have "last (fst (export_html render (output_info b1) out_path b1))
         = Write_file (out_path @ [''index.html''])
             (index_text render (output_info b1)
               (if dynamic_imports opts
                then [''unbundled.html'', ''modulepreload.html'', ''script-preload.html'']
                else [''unbundled.html'', ''modulepreload.html'', ''script-preload.html'',
                      ''rollup.html'', ''webbundle.html'']))"
    using export_html_pages [OF m1, of render "output_info b1" out_path]
    by (cases "dynamic_imports opts") (simp_all add: o1)
  ultimately show ?thesis using b b1_def by (intro exI [of _ b] exI [of _ b1] conjI)
qed

text \<open>
  C8, at depth zero. The option parser accepts \<^verbatim>\<open>--depth 0\<close>. There the root call of
  the expansion returns \<^verbatim>\<open>None\<close>, and the run ends in a \<^verbatim>\<open>TypeError\<close> after the file of
  the root: in either loading mode no comparison page and no index is written, and no
  bundler is called. For every positive depth \<open>pages_of_run\<close> gives the pages of the claim.
\<close>

theorem C8_no_pages_at_depth_zero:
  assumes "depth_opt opts = 0" and "0 < fuel"
  shows "\<exists>ops. main fuel opts render output_info out_path g = Some (ops, Inl TypeError)
     \<and> written_files ops = [join_paths out_path [''A.mjs'']]
     \<and> shell_commands ops = []"
  using create_module_tree_depth_0 [OF assms]
  by (cases "dynamic_imports opts")
     (simp_all add: main_def Benchmark_export_def export_modules_def has_children_def
      file_text_leaf_static file_text_leaf_dynamic written_files_def shell_commands_def)

theorem C8_no_pages_at_depth_zero_witness:
  "(\<exists>ops. main 1 (depth_zero_options\<lparr>dynamic_imports := True\<rparr>) (\<lambda>n s. n) (\<lambda>b. []) [''out''] (\<lambda>k. 0)
            = Some (ops, Inl TypeError)
      \<and> written_files ops = [[''out'', ''A.mjs'']] \<and> shell_commands ops = [])
   \<and> (\<exists>ops. main 1 depth_zero_options (\<lambda>n s. n) (\<lambda>b. []) [''out''] (\<lambda>k. 0)
            = Some (ops, Inl TypeError)
      \<and> written_files ops = [[''out'', ''A.mjs'']] \<and> shell_commands ops = [])"
  using C8_no_pages_at_depth_zero [of "depth_zero_options\<lparr>dynamic_imports := True\<rparr>" 1
      "\<lambda>n s. n" "\<lambda>b. []" "[''out'']" "\<lambda>k. 0"]
    C8_no_pages_at_depth_zero [of depth_zero_options 1 "\<lambda>n s. n" "\<lambda>b. []" "[''out'']" "\<lambda>k. 0"]
  by (simp add: depth_zero_options_def join_paths_def is_absolute_def)

subsection \<open>The filler and the helper\<close>

lemma draws_Suc:
  "draws (Suc n) g =
     (fst (randint min_range max_range g) # fst (draws n (snd (randint min_range max_range g))),
      snd (draws n (snd (randint min_range max_range g))))"
  by (simp add: case_prod_beta Let_def)




lemma randint_range:
  assumes "lo \<le> hi"
  shows "lo \<le> fst (randint lo hi g) \<and> fst (randint lo hi g) \<le> hi"
proof -
  define r where "r = g 0 mod (hi - lo + 1)"
  have "r < hi - lo + 1" unfolding r_def by (rule mod_less_divisor) simp
  moreover have "fst (randint lo hi g) = lo + r" by (simp add: randint_def r_def)
  ultimately show ?thesis using assms by arith
qed

lemma draws_range: "number \<in> set (fst (draws n g)) \<Longrightarrow> min_range \<le> number \<and> number \<le> max_range"
proof (induction n arbitrary: g)
  case 0
  then show ?case by simp
next
  case (Suc n)
  have le: "min_range \<le> max_range" by (simp add: min_range_def max_range_def random_digits_def)
  from Suc.prems have "number = fst (randint min_range max_range g)
      \<or> number \<in> set (fst (draws n (snd (randint min_range max_range g))))"
    unfolding draws_Suc by simp
  then show ?case
  proof
    assume "number = fst (randint min_range max_range g)"
    with randint_range [OF le, of g] show ?thesis by simp
  next
    assume "number \<in> set (fst (draws n (snd (randint min_range max_range g))))"
    then show ?thesis by (rule Suc.IH)
  qed
qed




lemma exec_pair:
  assumes "n \<le> max_range"
  shows "exec_stmts (Add_assign n # Sub_assign n # ss) 1 = exec_stmts ss 1"
proof -
  from assms have "n \<le> 10 ^ 10" by (simp add: max_range_def random_digits_def)
  then have "int n \<le> 10 ^ 10" by (metis of_nat_le_iff of_nat_numeral of_nat_power)
  then show ?thesis by (simp add: js_add_def safe_integer_def)
qed

lemma exec_pairs:
  "\<forall>n \<in> set ns. n \<le> max_range \<Longrightarrow>
   exec_stmts (concat (map (\<lambda>number. [Add_assign number, Sub_assign number]) ns)) 1 = Some 1"
proof (induction ns)
  case Nil
  show ?case by simp
next
  case (Cons n ns)
  from Cons.prems have "n \<le> max_range" by simp
  then have "exec_stmts (concat (map (\<lambda>number. [Add_assign number, Sub_assign number]) (n # ns))) 1
      = exec_stmts (concat (map (\<lambda>number. [Add_assign number, Sub_assign number]) ns)) 1"
    using exec_pair [of n] by (simp del: exec_stmts.simps)
  also have "\<dots> = Some 1" using Cons by simp
  finally show ?case .
qed

lemma run_helper_lines: "run_helper (helper_lines self g) = Some 101"
proof -
  have "\<forall>n \<in> set (fst (draws (nat (filler_bound self)) g)). n \<le> max_range"
    using draws_range by blast
  then have "exec_stmts (concat (helper_lines self g)) 1 = Some 1"
    unfolding helper_lines_def by (rule exec_pairs)
  then show ?thesis
    by (simp add: run_helper_def js_add_def safe_integer_def)
qed














lemma root_size_zero:
  assumes "create_module_tree fuel opts = Some b"
  shows "size_m (start_module b) = 0"
proof -
  from create_module_tree_shape(3) [OF assms]
  have "size_m (start_module b) = size_m (Module_init [ROOT_AXIOM] None 0 0 0 (dynamic_imports opts))"
    by (metis extend_sel(5))
  then show ?thesis by (simp add: Module_init_def Let_def)
qed





subsection \<open>Paths in a generated tree\<close>
















subsection \<open>Preload hints\<close>













subsection \<open>The order of the exported list\<close>






subsection \<open>A symbol that is the path separator\<close>


subsection \<open>Qualified names of siblings differ\<close>
















subsection \<open>The entry function and its total\<close>





lemma run_helper_result: "run_helper (helper_lines self g) = Some helper_result"
  by (simp add: run_helper_lines helper_result_def)











lemma entry_results_map: "entry_results ea ms = map (entry_result ea) ms"
  by (induction ms) simp_all




subsection \<open>Generated trees have unique sibling names\<close>








subsection \<open>The loading mode does not change the shape\<close>

lemma with_mode_list_map: "with_mode_list d ms = map (with_mode d) ms"
  by (induction ms) simp_all

lemma with_mode_sel [simp]:
  "children (with_mode d m) = map (with_mode d) (children m)"
  "simple_name (with_mode d m) = simple_name m"
  "depth (with_mode d m) = depth m"
  "index (with_mode d m) = index m"
  "size_m (with_mode d m) = size_m m"
  "dynamic_import (with_mode d m) = d"
  "name (with_mode d m) = name m"
  "path (with_mode d m) = path m"
  "submodule_path (with_mode d m) = submodule_path m"
  by (cases m; simp add: with_mode_list_map)+














end
